theory Spec2Isabelle
  imports Complex_Main
begin

section \<open>Generate API V1 routes (fooocusapi/routes/generate\_v1.py)\<close>

text \<open>
  The module is a routing layer: every handler shapes its parameters and hands them to a
  callable imported from another module. The embedding keeps the handlers as they are
  written and makes the two things a handler does besides returning a value explicit:
  \<^item> the calls it places on imported callables, recorded in order with their arguments;
  \<^item> an exception raised by such a callable, which ends the handler (\<open>Inl\<close>).
  The imported callables themselves are not part of the file; their behaviour is a
  parameter of every handler (the record \<open>collaborators\<close>).
\<close>

subsection \<open>Values that cross the boundary\<close>

text \<open>Starlette's \<open>UploadFile\<close>: the handlers read its \<open>filename\<close> and pass the object on.\<close>

record 'h UploadFile =
  filename :: "string option"
  file_object :: 'h

text \<open>The values stored in the \<open>extras\<close> dictionary: \<open>str\<close> and \<open>float\<close> parameters.\<close>

datatype 'f extra = Str string | Float 'f

text \<open>The values of the dictionary that \<open>generate_mask_route\<close> returns.\<close>

datatype 'mask mask_field = Filename "string option" | Mask 'mask

record DescribeImageResponse =
  describe :: string

record StopResponse =
  msg :: string

subsection \<open>Imported callables\<close>

text \<open>
  One constructor for each call on an imported callable, carrying the arguments of the call.
  \<open>Image_read\<close> is \<open>await image.read()\<close>.
\<close>

datatype ('req, 'h, 'arr, 'byt, 'f) call =
    Call_worker 'req "string option"
  | Process_stop
  | Read_input_image "'h UploadFile"
  | Hwc3 'arr
  | Default_interrogator_photo 'arr
  | Default_interrogator_anime 'arr
  | Image_read "'h UploadFile"
  | Generate_mask_from_image 'byt string "string \<rightharpoonup> 'f extra"

text \<open>
  What the imported callables answer during one request: a value, or the exception they
  raise. No handler calls the same callable twice, so a function of the arguments is
  enough. \<open>photo\<close> is the member \<open>DescribeImageType.photo\<close> of an enumeration declared in
  \<open>fooocusapi.models.common.base\<close>; the enumeration is the type parameter \<open>'ty\<close>.
\<close>

record ('req, 'resp, 'e, 'h, 'arr, 'byt, 'f, 'mask, 'ty) collaborators =
  call_worker :: "'req \<Rightarrow> string option \<Rightarrow> 'e + 'resp"
  process_stop :: "'e + unit"
  read_input_image :: "'h UploadFile \<Rightarrow> 'e + 'arr"
  HWC3 :: "'arr \<Rightarrow> 'e + 'arr"
  default_interrogator_photo :: "'arr \<Rightarrow> 'e + string"
  default_interrogator_anime :: "'arr \<Rightarrow> 'e + string"
  image_read :: "'h UploadFile \<Rightarrow> 'e + 'byt"
  generate_mask_from_image :: "'byt \<Rightarrow> string \<Rightarrow> (string \<rightharpoonup> 'f extra) \<Rightarrow> 'e + 'mask"
  photo :: 'ty

subsection \<open>Running a handler\<close>

text \<open>
  A run is the list of calls placed so far and the outcome. \<open>invoke\<close> places one call,
  \<open>and_then\<close> continues after a call that returned and stops after one that raised,
  \<open>returns\<close> is the \<open>return\<close> statement.
\<close>

type_synonym ('c, 'e, 'a) run = "'c list \<times> ('e + 'a)"

definition invoke :: "'c \<Rightarrow> 'e + 'a \<Rightarrow> ('c, 'e, 'a) run" where
  "invoke c outcome = ([c], outcome)"

definition returns :: "'a \<Rightarrow> ('c, 'e, 'a) run" where
  "returns x = ([], Inr x)"

definition and_then :: "('c, 'e, 'a) run \<Rightarrow> ('a \<Rightarrow> ('c, 'e, 'b) run) \<Rightarrow> ('c, 'e, 'b) run" where
  "and_then m f =
     (case m of
        (cs, Inl e) \<Rightarrow> (cs, Inl e)
      | (cs, Inr x) \<Rightarrow> (case f x of (cs', r) \<Rightarrow> (cs @ cs', r)))"

subsection \<open>The generation handlers\<close>

text \<open>
  \<^verbatim>\<open>
  if accept_query is not None and len(accept_query) > 0:
      accept = accept_query
  return call_worker(req, accept)
  \<close>
  The test is Python's short-circuit conjunction: the length is taken only of a string.
\<close>

definition text2img_generation ::
  "('req, 'resp, 'e, 'h, 'arr, 'byt, 'f, 'mask, 'ty) collaborators \<Rightarrow>
   'req \<Rightarrow> string option \<Rightarrow> string option \<Rightarrow>
   (('req, 'h, 'arr, 'byt, 'f) call, 'e, 'resp) run" where
  "text2img_generation ext req accept accept_query =
     (let accept =
        (if (case accept_query of None \<Rightarrow> False | Some q \<Rightarrow> 0 < length q)
         then accept_query else accept)
      in invoke (Call_worker req accept) (call_worker ext req accept))"

definition img_upscale_or_vary ::
  "('req, 'resp, 'e, 'h, 'arr, 'byt, 'f, 'mask, 'ty) collaborators \<Rightarrow>
   'h UploadFile \<Rightarrow> 'req \<Rightarrow> string option \<Rightarrow> string option \<Rightarrow>
   (('req, 'h, 'arr, 'byt, 'f) call, 'e, 'resp) run" where
  "img_upscale_or_vary ext input_image req accept accept_query =
     (let accept =
        (if (case accept_query of None \<Rightarrow> False | Some q \<Rightarrow> 0 < length q)
         then accept_query else accept)
      in invoke (Call_worker req accept) (call_worker ext req accept))"

definition img_inpaint_or_outpaint ::
  "('req, 'resp, 'e, 'h, 'arr, 'byt, 'f, 'mask, 'ty) collaborators \<Rightarrow>
   'h UploadFile \<Rightarrow> 'req \<Rightarrow> string option \<Rightarrow> string option \<Rightarrow>
   (('req, 'h, 'arr, 'byt, 'f) call, 'e, 'resp) run" where
  "img_inpaint_or_outpaint ext input_image req accept accept_query =
     (let accept =
        (if (case accept_query of None \<Rightarrow> False | Some q \<Rightarrow> 0 < length q)
         then accept_query else accept)
      in invoke (Call_worker req accept) (call_worker ext req accept))"

definition img_prompt ::
  "('req, 'resp, 'e, 'h, 'arr, 'byt, 'f, 'mask, 'ty) collaborators \<Rightarrow>
   'h UploadFile option \<Rightarrow> 'req \<Rightarrow> string option \<Rightarrow> string option \<Rightarrow>
   (('req, 'h, 'arr, 'byt, 'f) call, 'e, 'resp) run" where
  "img_prompt ext cn_img1 req accept accept_query =
     (let accept =
        (if (case accept_query of None \<Rightarrow> False | Some q \<Rightarrow> 0 < length q)
         then accept_query else accept)
      in invoke (Call_worker req accept) (call_worker ext req accept))"

subsection \<open>The tools and the stop handler\<close>

text \<open>
  \<^verbatim>\<open>
  if image_type == DescribeImageType.photo:
      interrogator = default_interrogator_photo
  else:
      interrogator = default_interrogator_anime
  img = HWC3(read_input_image(image))
  result = interrogator(img)
  return DescribeImageResponse(describe=result)
  \<close>
  The interrogator is chosen before the image is read; \<open>read_input_image\<close> is called
  before \<open>HWC3\<close>, whose argument it computes. The parameter \<open>image\<close> is written
  \<open>image'\<close>, the plain name being HOL's image of a set.
\<close>

definition describe_image ::
  "('req, 'resp, 'e, 'h, 'arr, 'byt, 'f, 'mask, 'ty) collaborators \<Rightarrow>
   'h UploadFile \<Rightarrow> 'ty \<Rightarrow>
   (('req, 'h, 'arr, 'byt, 'f) call, 'e, DescribeImageResponse) run" where
  "describe_image ext image' image_type =
     (let interrogator =
        (if image_type = photo ext
         then (\<lambda>img. invoke (Default_interrogator_photo img) (default_interrogator_photo ext img))
         else (\<lambda>img. invoke (Default_interrogator_anime img) (default_interrogator_anime ext img)))
      in and_then (invoke (Read_input_image image') (read_input_image ext image')) (\<lambda>arr.
         and_then (invoke (Hwc3 arr) (HWC3 ext arr)) (\<lambda>img.
         and_then (interrogator img) (\<lambda>result.
         returns \<lparr>describe = result\<rparr>))))"

text \<open>
  \<^verbatim>\<open>
  image_data = await image.read()
  extras = {}
  if mask_model == 'u2net_cloth_seg':
      extras['cloth_category'] = cloth_category
  elif mask_model == 'sam':
      extras['sam_prompt_text'] = sam_prompt_text
      ...
  mask = generate_mask_from_image(image_data, mask_model, extras)
  return {"filename": image.filename, "mask": mask}
  \<close>
\<close>

definition generate_mask_route ::
  "('req, 'resp, 'e, 'h, 'arr, 'byt, 'f, 'mask, 'ty) collaborators \<Rightarrow>
   'h UploadFile \<Rightarrow> string \<Rightarrow> string \<Rightarrow> string \<Rightarrow> string \<Rightarrow> string \<Rightarrow> 'f \<Rightarrow> 'f \<Rightarrow>
   (('req, 'h, 'arr, 'byt, 'f) call, 'e, string \<rightharpoonup> 'mask mask_field) run" where
  "generate_mask_route ext image' mask_model cloth_category sam_prompt_text sam_model sam_quant
       box_threshold text_threshold =
     and_then (invoke (Image_read image') (image_read ext image')) (\<lambda>image_data.
       let extras = Map.empty;
           extras =
             (if mask_model = ''u2net_cloth_seg''
              then extras(''cloth_category'' \<mapsto> Str cloth_category)
              else if mask_model = ''sam''
              then extras(''sam_prompt_text'' \<mapsto> Str sam_prompt_text,
                          ''sam_model'' \<mapsto> Str sam_model,
                          ''sam_quant'' \<mapsto> Str sam_quant,
                          ''box_threshold'' \<mapsto> Float box_threshold,
                          ''text_threshold'' \<mapsto> Float text_threshold)
              else extras)
       in and_then (invoke (Generate_mask_from_image image_data mask_model extras)
                      (generate_mask_from_image ext image_data mask_model extras)) (\<lambda>mask.
          returns [''filename'' \<mapsto> Filename (filename image'), ''mask'' \<mapsto> Mask mask]))"

definition stop_worker ::
  "('req, 'resp, 'e, 'h, 'arr, 'byt, 'f, 'mask, 'ty) collaborators \<Rightarrow>
   (('req, 'h, 'arr, 'byt, 'f) call, 'e, unit) run" where
  "stop_worker ext = invoke Process_stop (process_stop ext)"

definition stop ::
  "('req, 'resp, 'e, 'h, 'arr, 'byt, 'f, 'mask, 'ty) collaborators \<Rightarrow>
   (('req, 'h, 'arr, 'byt, 'f) call, 'e, StopResponse) run" where
  "stop ext = and_then (stop_worker ext) (\<lambda>_. returns \<lparr>msg = ''success''\<rparr>)"

subsection \<open>Where an exception comes from\<close>

text \<open>The exception, if any, that a recorded call raised.\<close>

definition exception_of :: "'e + 'a \<Rightarrow> 'e option" where
  "exception_of outcome = (case outcome of Inl e \<Rightarrow> Some e | Inr _ \<Rightarrow> None)"

fun raised ::
  "('req, 'resp, 'e, 'h, 'arr, 'byt, 'f, 'mask, 'ty) collaborators \<Rightarrow>
   ('req, 'h, 'arr, 'byt, 'f) call \<Rightarrow> 'e option" where
  "raised ext (Call_worker req accept) = exception_of (call_worker ext req accept)"
| "raised ext Process_stop = exception_of (process_stop ext)"
| "raised ext (Read_input_image u) = exception_of (read_input_image ext u)"
| "raised ext (Hwc3 arr) = exception_of (HWC3 ext arr)"
| "raised ext (Default_interrogator_photo img) = exception_of (default_interrogator_photo ext img)"
| "raised ext (Default_interrogator_anime img) = exception_of (default_interrogator_anime ext img)"
| "raised ext (Image_read u) = exception_of (image_read ext u)"
| "raised ext (Generate_mask_from_image d m x) = exception_of (generate_mask_from_image ext d m x)"

text \<open>
  A run whose exception, when it ends in one, is the exception raised by the last call it
  placed, and all of whose calls returned when it ends in a value.
\<close>

definition delegated ::
  "('req, 'resp, 'e, 'h, 'arr, 'byt, 'f, 'mask, 'ty) collaborators \<Rightarrow>
   (('req, 'h, 'arr, 'byt, 'f) call, 'e, 'a) run \<Rightarrow> bool" where
  "delegated ext r =
     (case snd r of
        Inl e \<Rightarrow> fst r \<noteq> [] \<and> raised ext (last (fst r)) = Some e
      | Inr _ \<Rightarrow> list_all (\<lambda>c. raised ext c = None) (fst r))"

subsection \<open>The router\<close>

text \<open>
  \<^verbatim>\<open>
  secure_router = APIRouter(dependencies=[Depends(api_key_auth)])

  @secure_router.post(path="/v1/generation/text-to-image", ..., tags=["GenerateV1"])
  def text2img_generation(...): ...
  \<close>
  FastAPI is not part of the repository. Of it the model keeps what the module relies on:
  \<^item> \<open>APIRouter(dependencies=ds)\<close> is a router with the dependencies \<open>ds\<close> and no route;
  \<^item> \<open>router.post(path=p, tags=ts)\<close> applied to a function appends a route for the method
    POST, whose dependencies are the router's (the decorators of this module give none of
    their own);
  \<^item> a request is served by the first route of its method and path; the dependencies of
    the route are resolved in order before the endpoint is called, and one that raises
    ends the request.
  \<open>response_model\<close>, \<open>responses\<close> and \<open>description\<close> shape the documentation and the
  serialisation of the answer and are left out. What \<open>api_key_auth\<close> decides
  (\<open>fooocusapi.utils.api_utils\<close>) is a parameter of \<open>serve\<close>.
\<close>

datatype callable = Api_key_auth

datatype depends = Depends callable

datatype endpoint =
    Text2img_generation
  | Img_upscale_or_vary
  | Img_inpaint_or_outpaint
  | Img_prompt
  | Describe_image
  | Generate_mask_route
  | Stop

record route =
  path :: string
  methods :: "string list"
  tags :: "string list"
  endpoint :: endpoint
  route_dependencies :: "depends list"

record APIRouter =
  dependencies :: "depends list"
  routes :: "route list"

definition new_APIRouter :: "depends list \<Rightarrow> APIRouter" where
  "new_APIRouter ds = \<lparr>dependencies = ds, routes = []\<rparr>"

definition post :: "APIRouter \<Rightarrow> string \<Rightarrow> string list \<Rightarrow> endpoint \<Rightarrow> APIRouter" where
  "post router p ts f =
     router\<lparr>routes := routes router @
       [\<lparr>path = p, methods = [''POST''], tags = ts, endpoint = f,
         route_dependencies = dependencies router\<rparr>]\<rparr>"

definition secure_router :: APIRouter where
  "secure_router =
     (let r = new_APIRouter [Depends Api_key_auth];
          r = post r ''/v1/generation/text-to-image'' [''GenerateV1''] Text2img_generation;
          r = post r ''/v1/generation/image-upscale-vary'' [''GenerateV1''] Img_upscale_or_vary;
          r = post r ''/v1/generation/image-inpaint-outpaint'' [''GenerateV1'']
                Img_inpaint_or_outpaint;
          r = post r ''/v1/generation/image-prompt'' [''GenerateV1''] Img_prompt;
          r = post r ''/v1/tools/describe-image'' [''GenerateV1''] Describe_image;
          r = post r ''/v1/tools/generate-mask'' [''GenerateV1''] Generate_mask_route;
          r = post r ''/v1/generation/stop'' [''Default''] Stop
      in r)"

datatype served = No_route | Refused callable | Calls endpoint

fun find_route :: "route list \<Rightarrow> string \<Rightarrow> string \<Rightarrow> route option" where
  "find_route [] m p = None"
| "find_route (r # rs) m p =
     (if path r = p \<and> m \<in> set (methods r) then Some r else find_route rs m p)"

fun first_refusing :: "(callable \<Rightarrow> bool) \<Rightarrow> depends list \<Rightarrow> callable option" where
  "first_refusing passes [] = None"
| "first_refusing passes (Depends d # ds) =
     (if passes d then first_refusing passes ds else Some d)"

definition serve :: "APIRouter \<Rightarrow> (callable \<Rightarrow> bool) \<Rightarrow> string \<Rightarrow> string \<Rightarrow> served" where
  "serve router passes m p =
     (case find_route (routes router) m p of
        None \<Rightarrow> No_route
      | Some r \<Rightarrow>
          (case first_refusing passes (route_dependencies r) of
             Some d \<Rightarrow> Refused d
           | None \<Rightarrow> Calls (endpoint r)))"

subsection \<open>Collaborators with canned answers\<close>

text \<open>
  An instance of the collaborators, to run the handlers on concrete inputs: requests are
  prompts, the worker answers with a list of file names, images are lists of numbers.
\<close>

definition canned ::
  "(string, string list, string, nat, nat list, nat list, real, nat list, string) collaborators" where
  "canned =
     \<lparr>call_worker = (\<lambda>req accept. Inr [req @ ''.png'']),
      process_stop = Inr (),
      read_input_image = (\<lambda>u. Inr [file_object u]),
      HWC3 = (\<lambda>arr. Inr (arr @ arr @ arr)),
      default_interrogator_photo = (\<lambda>img. Inr ''a photo''),
      default_interrogator_anime = (\<lambda>img. Inr ''1girl''),
      image_read = (\<lambda>u. Inr [file_object u, file_object u]),
      generate_mask_from_image = (\<lambda>d m x. Inr (rev d)),
      photo = ''Photo''\<rparr>"

section \<open>Properties\<close>

subsection \<open>Helper facts\<close>

lemma generation_run:
  "text2img_generation ext req accept accept_query =
     ([Call_worker req (if accept_query = None \<or> accept_query = Some [] then accept else accept_query)],
      call_worker ext req (if accept_query = None \<or> accept_query = Some [] then accept else accept_query))"
  "img_upscale_or_vary ext input_image req accept accept_query =
     ([Call_worker req (if accept_query = None \<or> accept_query = Some [] then accept else accept_query)],
      call_worker ext req (if accept_query = None \<or> accept_query = Some [] then accept else accept_query))"
  "img_inpaint_or_outpaint ext input_image req accept accept_query =
     ([Call_worker req (if accept_query = None \<or> accept_query = Some [] then accept else accept_query)],
      call_worker ext req (if accept_query = None \<or> accept_query = Some [] then accept else accept_query))"
  "img_prompt ext cn_img1 req accept accept_query =
     ([Call_worker req (if accept_query = None \<or> accept_query = Some [] then accept else accept_query)],
      call_worker ext req (if accept_query = None \<or> accept_query = Some [] then accept else accept_query))"
  by (simp_all add: text2img_generation_def img_upscale_or_vary_def img_inpaint_or_outpaint_def
        img_prompt_def invoke_def Let_def split: option.split)

lemma routes_secure_router:
  "routes secure_router =
     [\<lparr>path = ''/v1/generation/text-to-image'', methods = [''POST''], tags = [''GenerateV1''],
        endpoint = Text2img_generation, route_dependencies = [Depends Api_key_auth]\<rparr>,
      \<lparr>path = ''/v1/generation/image-upscale-vary'', methods = [''POST''], tags = [''GenerateV1''],
        endpoint = Img_upscale_or_vary, route_dependencies = [Depends Api_key_auth]\<rparr>,
      \<lparr>path = ''/v1/generation/image-inpaint-outpaint'', methods = [''POST''],
        tags = [''GenerateV1''], endpoint = Img_inpaint_or_outpaint,
        route_dependencies = [Depends Api_key_auth]\<rparr>,
      \<lparr>path = ''/v1/generation/image-prompt'', methods = [''POST''], tags = [''GenerateV1''],
        endpoint = Img_prompt, route_dependencies = [Depends Api_key_auth]\<rparr>,
      \<lparr>path = ''/v1/tools/describe-image'', methods = [''POST''], tags = [''GenerateV1''],
        endpoint = Describe_image, route_dependencies = [Depends Api_key_auth]\<rparr>,
      \<lparr>path = ''/v1/tools/generate-mask'', methods = [''POST''], tags = [''GenerateV1''],
        endpoint = Generate_mask_route, route_dependencies = [Depends Api_key_auth]\<rparr>,
      \<lparr>path = ''/v1/generation/stop'', methods = [''POST''], tags = [''Default''],
        endpoint = Stop, route_dependencies = [Depends Api_key_auth]\<rparr>]"
  by (simp add: secure_router_def new_APIRouter_def post_def Let_def)

lemma find_route_member: "find_route rs m p = Some r \<Longrightarrow> r \<in> set rs"
  by (induction rs) (auto split: if_splits)

lemma first_refusing_None:
  "first_refusing passes ds = None \<Longrightarrow> Depends d \<in> set ds \<Longrightarrow> passes d"
  by (induction passes ds rule: first_refusing.induct) (auto split: if_splits)

lemma describe_image_run:
  assumes "read_input_image ext image' = Inr arr" and "HWC3 ext arr = Inr img"
  shows "describe_image ext image' image_type =
     ([Read_input_image image', Hwc3 arr,
       if image_type = photo ext then Default_interrogator_photo img
       else Default_interrogator_anime img],
      case (if image_type = photo ext then default_interrogator_photo ext img
            else default_interrogator_anime ext img) of
        Inl e \<Rightarrow> Inl e
      | Inr result \<Rightarrow> Inr \<lparr>describe = result\<rparr>)"
  using assms
  by (simp add: describe_image_def and_then_def invoke_def returns_def Let_def split: sum.split)

lemma generate_mask_route_run:
  assumes "image_read ext image' = Inr image_data"
  shows "\<exists>extras.
     generate_mask_route ext image' mask_model cloth_category sam_prompt_text sam_model sam_quant
         box_threshold text_threshold =
       ([Image_read image', Generate_mask_from_image image_data mask_model extras],
        case generate_mask_from_image ext image_data mask_model extras of
          Inl e \<Rightarrow> Inl e
        | Inr m \<Rightarrow> Inr [''filename'' \<mapsto> Filename (filename image'), ''mask'' \<mapsto> Mask m]) \<and>
     extras =
       (if mask_model = ''u2net_cloth_seg'' then [''cloth_category'' \<mapsto> Str cloth_category]
        else if mask_model = ''sam''
        then [''sam_prompt_text'' \<mapsto> Str sam_prompt_text, ''sam_model'' \<mapsto> Str sam_model,
              ''sam_quant'' \<mapsto> Str sam_quant, ''box_threshold'' \<mapsto> Float box_threshold,
              ''text_threshold'' \<mapsto> Float text_threshold]
        else Map.empty)"
  using assms
  by (simp add: generate_mask_route_def and_then_def invoke_def returns_def Let_def
        split: sum.split)

lemma stop_run:
  "stop ext =
     ([Process_stop],
      case process_stop ext of Inl e \<Rightarrow> Inl e | Inr u \<Rightarrow> Inr \<lparr>msg = ''success''\<rparr>)"
  by (simp add: stop_def stop_worker_def and_then_def invoke_def returns_def split: sum.split)

lemma delegated_invoke:
  "raised ext c = exception_of outcome \<Longrightarrow> delegated ext (invoke c outcome)"
  by (cases outcome) (simp_all add: delegated_def invoke_def exception_of_def)

lemma delegated_returns: "delegated ext (returns x)"
  by (simp add: delegated_def returns_def)

lemma delegated_and_then:
  assumes m: "delegated ext m"
    and f: "\<And>x. snd m = Inr x \<Longrightarrow> delegated ext (f x)"
  shows "delegated ext (and_then m f)"
proof (cases m)
  case (Pair cs r)
  show ?thesis
  proof (cases r)
    case (Inl e)
    with Pair m show ?thesis
      by (simp add: and_then_def delegated_def)
  next
    case (Inr x)
    obtain cs' r' where fx: "f x = (cs', r')"
      by (cases "f x")
    from f [of x] Pair Inr fx have d': "delegated ext (cs', r')"
      by simp
    from m Pair Inr have all: "list_all (\<lambda>c. raised ext c = None) cs"
      by (simp add: delegated_def)
    from Pair Inr fx have run: "and_then m f = (cs @ cs', r')"
      by (simp add: and_then_def)
    show ?thesis
    proof (cases r')
      case (Inl e)
      with d' have "cs' \<noteq> []" and "raised ext (last cs') = Some e"
        by (simp_all add: delegated_def)
      with Inl run show ?thesis
        by (simp add: delegated_def)
    next
      case (Inr y)
      with d' all run show ?thesis
        by (simp add: delegated_def)
    qed
  qed
qed

lemma delegated_generation:
  "delegated ext (text2img_generation ext req accept accept_query)"
  "delegated ext (img_upscale_or_vary ext input_image req accept accept_query)"
  "delegated ext (img_inpaint_or_outpaint ext input_image req accept accept_query)"
  "delegated ext (img_prompt ext cn_img1 req accept accept_query)"
  by (simp_all add: text2img_generation_def img_upscale_or_vary_def img_inpaint_or_outpaint_def
        img_prompt_def Let_def delegated_invoke)

lemma delegated_describe_image: "delegated ext (describe_image ext image' image_type)"
  unfolding describe_image_def Let_def
  by (intro delegated_and_then delegated_invoke delegated_returns) (simp_all add: delegated_invoke)

lemma delegated_generate_mask_route:
  "delegated ext (generate_mask_route ext image' mask_model cloth_category sam_prompt_text
     sam_model sam_quant box_threshold text_threshold)"
  unfolding generate_mask_route_def Let_def
  by (intro delegated_and_then delegated_invoke delegated_returns) simp_all

lemma delegated_stop: "delegated ext (stop ext)"
  unfolding stop_def stop_worker_def
  by (intro delegated_and_then delegated_invoke delegated_returns) simp_all

subsection \<open>Claims\<close>

text \<open>
  C1. On each of the four generation endpoints the handler places exactly one call, on
  \<open>call_worker\<close>, with the request object it was given, and its outcome is the outcome of
  that call.
\<close>

theorem request_forwarded_unchanged:
  "(\<exists>acc. text2img_generation ext req accept accept_query =
            ([Call_worker req acc], call_worker ext req acc)) \<and>
   (\<exists>acc. img_upscale_or_vary ext input_image req accept accept_query =
            ([Call_worker req acc], call_worker ext req acc)) \<and>
   (\<exists>acc. img_inpaint_or_outpaint ext input_image req accept accept_query =
            ([Call_worker req acc], call_worker ext req acc)) \<and>
   (\<exists>acc. img_prompt ext cn_img1 req accept accept_query =
            ([Call_worker req acc], call_worker ext req acc))"
  by (simp add: generation_run)

text \<open>
  C2, as stated: the accept value passed to \<open>call_worker\<close> is the query parameter whenever
  the parameter is supplied. With the parameter supplied as the empty string and the header
  \<open>application/json\<close>, the handler does not pass the empty string.
\<close>

theorem accept_query_supplied_counterexample:
  "fst (text2img_generation canned ''a cat'' (Some ''application/json'') (Some '''')) \<noteq>
     [Call_worker ''a cat'' (Some '''')]"
  by (simp add: generation_run)

text \<open>
  C2, amended: on each of the four generation endpoints the accept value passed to
  \<open>call_worker\<close> is one of the two values, the query parameter or the header; it is the
  query parameter when that parameter is supplied and not empty, and the header otherwise.
\<close>

theorem accept_from_two_sources:
  "\<exists>acc. acc \<in> {accept_query, accept} \<and>
     acc = (case accept_query of
              None \<Rightarrow> accept
            | Some q \<Rightarrow> if q = [] then accept else accept_query) \<and>
     fst (text2img_generation ext req accept accept_query) = [Call_worker req acc] \<and>
     fst (img_upscale_or_vary ext input_image req accept accept_query) = [Call_worker req acc] \<and>
     fst (img_inpaint_or_outpaint ext input_image req accept accept_query) =
       [Call_worker req acc] \<and>
     fst (img_prompt ext cn_img1 req accept accept_query) = [Call_worker req acc]"
  by (cases accept_query) (simp_all add: generation_run)

text \<open>
  C9. On each generation endpoint the query parameter replaces the header only when it is
  a string of positive length: without the parameter, and with the parameter the empty
  string, the header value (any value, \<open>None\<close> included) is what \<open>call_worker\<close> receives.
\<close>

theorem accept_query_override:
  "fst (text2img_generation ext req accept None) = [Call_worker req accept] \<and>
   fst (text2img_generation ext req accept (Some [])) = [Call_worker req accept] \<and>
   fst (text2img_generation ext req accept (Some (c # cs))) = [Call_worker req (Some (c # cs))] \<and>
   fst (img_upscale_or_vary ext input_image req accept None) = [Call_worker req accept] \<and>
   fst (img_upscale_or_vary ext input_image req accept (Some [])) = [Call_worker req accept] \<and>
   fst (img_upscale_or_vary ext input_image req accept (Some (c # cs))) =
     [Call_worker req (Some (c # cs))] \<and>
   fst (img_inpaint_or_outpaint ext input_image req accept None) = [Call_worker req accept] \<and>
   fst (img_inpaint_or_outpaint ext input_image req accept (Some [])) =
     [Call_worker req accept] \<and>
   fst (img_inpaint_or_outpaint ext input_image req accept (Some (c # cs))) =
     [Call_worker req (Some (c # cs))] \<and>
   fst (img_prompt ext cn_img1 req accept None) = [Call_worker req accept] \<and>
   fst (img_prompt ext cn_img1 req accept (Some [])) = [Call_worker req accept] \<and>
   fst (img_prompt ext cn_img1 req accept (Some (c # cs))) = [Call_worker req (Some (c # cs))]"
  by (simp add: generation_run)

text \<open>
  C6. The stop handler places exactly one call, on \<open>process_stop\<close>, through
  \<open>stop_worker\<close>; when that call returns, the handler returns the \<open>StopResponse\<close> whose \<open>msg\<close>
  is \<open>success\<close>.
\<close>

theorem stop_calls_process_stop_once:
  "fst (stop_worker ext) = [Process_stop] \<and>
   fst (stop ext) = [Process_stop] \<and>
   count_list (fst (stop ext)) Process_stop = 1 \<and>
   (process_stop ext = Inr () \<longrightarrow> snd (stop ext) = Inr \<lparr>msg = ''success''\<rparr>)"
  by (simp add: stop_run stop_worker_def invoke_def)

theorem stop_calls_process_stop_once_witness:
  "process_stop canned = Inr () \<and>
   fst (stop canned) = [Process_stop] \<and>
   snd (stop canned) = Inr \<lparr>msg = ''success''\<rparr>"
  using stop_calls_process_stop_once [of canned] by (simp add: canned_def)

text \<open>
  C7. The router of the module has exactly seven routes, all for the method POST, with the
  seven paths of the interface, each once.
\<close>

theorem seven_post_routes:
  "map (\<lambda>r. (methods r, path r)) (routes secure_router) =
     [([''POST''], ''/v1/generation/text-to-image''),
      ([''POST''], ''/v1/generation/image-upscale-vary''),
      ([''POST''], ''/v1/generation/image-inpaint-outpaint''),
      ([''POST''], ''/v1/generation/image-prompt''),
      ([''POST''], ''/v1/tools/describe-image''),
      ([''POST''], ''/v1/tools/generate-mask''),
      ([''POST''], ''/v1/generation/stop'')] \<and>
   length (routes secure_router) = 7 \<and>
   distinct (map path (routes secure_router))"
  by (simp add: routes_secure_router)

text \<open>
  C3. The router the seven routes are registered on lists \<open>api_key_auth\<close> among its
  dependencies, every route carries that dependency, and a request reaches an endpoint of
  the module only if \<open>api_key_auth\<close> passed.
\<close>

theorem routes_require_api_key:
  "Depends Api_key_auth \<in> set (dependencies secure_router) \<and>
   length (routes secure_router) = 7 \<and>
   (\<forall>r \<in> set (routes secure_router). Depends Api_key_auth \<in> set (route_dependencies r)) \<and>
   (\<forall>passes m p f. serve secure_router passes m p = Calls f \<longrightarrow> passes Api_key_auth)"
proof -
  have deps: "dependencies secure_router = [Depends Api_key_auth]"
    by (simp add: secure_router_def new_APIRouter_def post_def Let_def)
  have all: "\<forall>r \<in> set (routes secure_router). Depends Api_key_auth \<in> set (route_dependencies r)"
    by (simp add: routes_secure_router)
  have "passes Api_key_auth" if "serve secure_router passes m p = Calls f" for passes m p f
  proof -
    from that obtain r where r: "find_route (routes secure_router) m p = Some r"
      and ok: "first_refusing passes (route_dependencies r) = None"
      by (auto simp: serve_def split: option.splits)
    from r have "r \<in> set (routes secure_router)" by (rule find_route_member)
    with all have "Depends Api_key_auth \<in> set (route_dependencies r)" by blast
    with ok show ?thesis by (rule first_refusing_None)
  qed
  then have reach:
    "\<forall>passes m p f. serve secure_router passes m p = Calls f \<longrightarrow> passes Api_key_auth"
    by blast
  have len: "length (routes secure_router) = 7"
    by (simp add: routes_secure_router)
  from deps all reach len show ?thesis by simp
qed

theorem routes_require_api_key_witness:
  "serve secure_router (\<lambda>d. True) ''POST'' ''/v1/generation/stop'' = Calls Stop \<and>
   serve secure_router (\<lambda>d. False) ''POST'' ''/v1/generation/stop'' = Refused Api_key_auth \<and>
   routes secure_router ! 6 \<in> set (routes secure_router) \<and>
   Depends Api_key_auth \<in> set (route_dependencies (routes secure_router ! 6))"
  using routes_require_api_key by (simp add: serve_def routes_secure_router)

text \<open>
  C4. When the upload is read and converted, \<open>describe_image\<close> calls exactly one
  interrogator, on \<open>HWC3(read_input_image(image))\<close>: the photo interrogator if and only if
  \<open>image_type\<close> is \<open>DescribeImageType.photo\<close>, the anime tagger for every other value; the
  response is the \<open>DescribeImageResponse\<close> whose \<open>describe\<close> is what that interrogator
  returned.
\<close>

theorem describe_image_dispatch:
  assumes "read_input_image ext image' = Inr arr" and "HWC3 ext arr = Inr img"
  shows "fst (describe_image ext image' image_type) =
       [Read_input_image image', Hwc3 arr,
        if image_type = photo ext then Default_interrogator_photo img
        else Default_interrogator_anime img] \<and>
     (Default_interrogator_photo img \<in> set (fst (describe_image ext image' image_type))
        \<longleftrightarrow> image_type = photo ext) \<and>
     (Default_interrogator_anime img \<in> set (fst (describe_image ext image' image_type))
        \<longleftrightarrow> image_type \<noteq> photo ext) \<and>
     (\<forall>result.
        (if image_type = photo ext then default_interrogator_photo ext img
         else default_interrogator_anime ext img) = Inr result \<longrightarrow>
        snd (describe_image ext image' image_type) = Inr \<lparr>describe = result\<rparr>)"
  by (simp add: describe_image_run [OF assms])

theorem describe_image_dispatch_witness:
  "read_input_image canned \<lparr>filename = Some ''cat.png'', file_object = 7\<rparr> = Inr [7] \<and>
   HWC3 canned [7] = Inr [7, 7, 7] \<and>
   describe_image canned \<lparr>filename = Some ''cat.png'', file_object = 7\<rparr> ''Photo'' =
     ([Read_input_image \<lparr>filename = Some ''cat.png'', file_object = 7\<rparr>, Hwc3 [7],
       Default_interrogator_photo [7, 7, 7]], Inr \<lparr>describe = ''a photo''\<rparr>) \<and>
   describe_image canned \<lparr>filename = Some ''cat.png'', file_object = 7\<rparr> ''Anime'' =
     ([Read_input_image \<lparr>filename = Some ''cat.png'', file_object = 7\<rparr>, Hwc3 [7],
       Default_interrogator_anime [7, 7, 7]], Inr \<lparr>describe = ''1girl''\<rparr>)"
proof -
  let ?u = "\<lparr>filename = Some ''cat.png'', file_object = 7::nat\<rparr>"
  have r: "read_input_image canned ?u = Inr [7]" and h: "HWC3 canned [7] = Inr [7, 7, 7]"
    by (simp_all add: canned_def)
  have p: "photo canned = ''Photo''"
    and ip: "default_interrogator_photo canned [7, 7, 7] = Inr ''a photo''"
    and ia: "default_interrogator_anime canned [7, 7, 7] = Inr ''1girl''"
    by (simp_all add: canned_def)
  from describe_image_dispatch [OF r h, of "''Photo''"]
       describe_image_dispatch [OF r h, of "''Anime''"] r h
  show ?thesis
    by (simp add: p ip ia prod_eq_iff)
qed

text \<open>
  C5. When the upload is read, \<open>generate_mask_route\<close> calls \<open>generate_mask_from_image\<close>
  once, with the bytes read, the mask model and an \<open>extras\<close> dictionary whose keys are
  exactly \<open>cloth_category\<close> for the model \<open>u2net_cloth_seg\<close>, exactly the five SAM keys for the
  model \<open>sam\<close>, and none for every other model; a response, when there is one, is a
  dictionary with exactly the keys \<open>filename\<close> and \<open>mask\<close>.
\<close>

theorem generate_mask_extras:
  assumes "image_read ext image' = Inr image_data"
  shows "\<exists>extras.
     fst (generate_mask_route ext image' mask_model cloth_category sam_prompt_text sam_model
            sam_quant box_threshold text_threshold) =
       [Image_read image', Generate_mask_from_image image_data mask_model extras] \<and>
     dom extras =
       (if mask_model = ''u2net_cloth_seg'' then {''cloth_category''}
        else if mask_model = ''sam''
        then {''sam_prompt_text'', ''sam_model'', ''sam_quant'', ''box_threshold'',
              ''text_threshold''}
        else {}) \<and>
     (\<forall>resp.
        snd (generate_mask_route ext image' mask_model cloth_category sam_prompt_text sam_model
               sam_quant box_threshold text_threshold) = Inr resp \<longrightarrow>
        dom resp = {''filename'', ''mask''}) \<and>
     (\<forall>m. generate_mask_from_image ext image_data mask_model extras = Inr m \<longrightarrow>
        snd (generate_mask_route ext image' mask_model cloth_category sam_prompt_text sam_model
               sam_quant box_threshold text_threshold) =
          Inr [''filename'' \<mapsto> Filename (filename image'), ''mask'' \<mapsto> Mask m])"
proof -
  from generate_mask_route_run [OF assms, of mask_model cloth_category sam_prompt_text sam_model
      sam_quant box_threshold text_threshold]
  obtain extras where run:
      "generate_mask_route ext image' mask_model cloth_category sam_prompt_text sam_model
           sam_quant box_threshold text_threshold =
         ([Image_read image', Generate_mask_from_image image_data mask_model extras],
          case generate_mask_from_image ext image_data mask_model extras of
            Inl e \<Rightarrow> Inl e
          | Inr m \<Rightarrow> Inr [''filename'' \<mapsto> Filename (filename image'), ''mask'' \<mapsto> Mask m])"
    and extras:
      "extras =
         (if mask_model = ''u2net_cloth_seg'' then [''cloth_category'' \<mapsto> Str cloth_category]
          else if mask_model = ''sam''
          then [''sam_prompt_text'' \<mapsto> Str sam_prompt_text, ''sam_model'' \<mapsto> Str sam_model,
                ''sam_quant'' \<mapsto> Str sam_quant, ''box_threshold'' \<mapsto> Float box_threshold,
                ''text_threshold'' \<mapsto> Float text_threshold]
          else Map.empty)"
    by blast
  have keys: "dom extras =
       (if mask_model = ''u2net_cloth_seg'' then {''cloth_category''}
        else if mask_model = ''sam''
        then {''sam_prompt_text'', ''sam_model'', ''sam_quant'', ''box_threshold'',
              ''text_threshold''}
        else {})"
    unfolding extras by auto
  have resp: "dom resp = {''filename'', ''mask''}"
    if "snd (generate_mask_route ext image' mask_model cloth_category sam_prompt_text sam_model
               sam_quant box_threshold text_threshold) = Inr resp" for resp
    using that unfolding run by (auto split: sum.splits if_splits)
  have ok: "snd (generate_mask_route ext image' mask_model cloth_category sam_prompt_text
               sam_model sam_quant box_threshold text_threshold) =
          Inr [''filename'' \<mapsto> Filename (filename image'), ''mask'' \<mapsto> Mask m]"
    if "generate_mask_from_image ext image_data mask_model extras = Inr m" for m
    unfolding run by (simp add: that)
  from run keys resp ok show ?thesis
    by (intro exI [of _ extras]) simp
qed

theorem generate_mask_extras_witness:
  "image_read canned \<lparr>filename = Some ''shirt.png'', file_object = 3\<rparr> = Inr [3, 3] \<and>
   (\<exists>extras.
      fst (generate_mask_route canned \<lparr>filename = Some ''shirt.png'', file_object = 3\<rparr>
             ''sam'' ''upper'' ''shirt'' ''vit_b'' ''None'' (3 / 10) (1 / 4)) =
        [Image_read \<lparr>filename = Some ''shirt.png'', file_object = 3\<rparr>,
         Generate_mask_from_image [3, 3] ''sam'' extras] \<and>
      dom extras = {''sam_prompt_text'', ''sam_model'', ''sam_quant'', ''box_threshold'',
                    ''text_threshold''}) \<and>
   (\<exists>resp.
      snd (generate_mask_route canned \<lparr>filename = Some ''shirt.png'', file_object = 3\<rparr>
             ''sam'' ''upper'' ''shirt'' ''vit_b'' ''None'' (3 / 10) (1 / 4)) = Inr resp \<and>
      dom resp = {''filename'', ''mask''})"
proof -
  let ?u = "\<lparr>filename = Some ''shirt.png'', file_object = 3::nat\<rparr>"
  let ?run = "generate_mask_route canned ?u ''sam'' ''upper'' ''shirt'' ''vit_b'' ''None''
                (3 / 10) (1 / 4)"
  have r: "image_read canned ?u = Inr [3, 3]"
    by (simp add: canned_def)
  from generate_mask_extras [OF r, of "''sam''" "''upper''" "''shirt''" "''vit_b''" "''None''"
      "3 / 10" "1 / 4"]
  obtain extras where calls: "fst ?run = [Image_read ?u, Generate_mask_from_image [3, 3] ''sam'' extras]"
    and keys: "dom extras = {''sam_prompt_text'', ''sam_model'', ''sam_quant'', ''box_threshold'',
                    ''text_threshold''}"
    and resp: "\<And>resp. snd ?run = Inr resp \<Longrightarrow> dom resp = {''filename'', ''mask''}"
    and ok: "\<And>m. generate_mask_from_image canned [3, 3] ''sam'' extras = Inr m \<Longrightarrow>
        snd ?run = Inr [''filename'' \<mapsto> Filename (filename ?u), ''mask'' \<mapsto> Mask m]"
    by auto
  have "generate_mask_from_image canned [3, 3] ''sam'' extras = Inr [3, 3]"
    by (simp add: canned_def)
  from ok [OF this] have "\<exists>resp. snd ?run = Inr resp \<and> dom resp = {''filename'', ''mask''}"
    using resp by blast
  with r calls keys show ?thesis by blast
qed

text \<open>
  C8. Every generation handler reaches its call on \<open>call_worker\<close>, whatever the request,
  and no handler of the module raises by itself: a handler that ends in an exception has
  placed at least one call on an imported callable (\<open>call_worker\<close>, \<open>process_stop\<close>,
  \<open>read_input_image\<close>, \<open>HWC3\<close>, an interrogator, \<open>image.read\<close>,
  \<open>generate_mask_from_image\<close>), and the exception is the one its last call raised; a
  handler that returns has seen all its calls return.
\<close>

theorem errors_come_from_delegated_calls:
  "(\<exists>acc. fst (text2img_generation ext req accept accept_query) = [Call_worker req acc]) \<and>
   (\<exists>acc. fst (img_upscale_or_vary ext input_image req accept accept_query) =
            [Call_worker req acc]) \<and>
   (\<exists>acc. fst (img_inpaint_or_outpaint ext input_image req accept accept_query) =
            [Call_worker req acc]) \<and>
   (\<exists>acc. fst (img_prompt ext cn_img1 req accept accept_query) = [Call_worker req acc]) \<and>
   delegated ext (text2img_generation ext req accept accept_query) \<and>
   delegated ext (img_upscale_or_vary ext input_image req accept accept_query) \<and>
   delegated ext (img_inpaint_or_outpaint ext input_image req accept accept_query) \<and>
   delegated ext (img_prompt ext cn_img1 req accept accept_query) \<and>
   delegated ext (describe_image ext image' image_type) \<and>
   delegated ext (generate_mask_route ext image' mask_model cloth_category sam_prompt_text
     sam_model sam_quant box_threshold text_threshold) \<and>
   delegated ext (stop ext)"
proof (intro conjI)
  show "\<exists>acc. fst (text2img_generation ext req accept accept_query) = [Call_worker req acc]"
    by (simp add: generation_run)
  show "\<exists>acc. fst (img_upscale_or_vary ext input_image req accept accept_query) =
      [Call_worker req acc]"
    by (simp add: generation_run)
  show "\<exists>acc. fst (img_inpaint_or_outpaint ext input_image req accept accept_query) =
      [Call_worker req acc]"
    by (simp add: generation_run)
  show "\<exists>acc. fst (img_prompt ext cn_img1 req accept accept_query) = [Call_worker req acc]"
    by (simp add: generation_run)
qed (rule delegated_generation delegated_describe_image delegated_generate_mask_route
       delegated_stop)+

theorem errors_come_from_delegated_calls_witness:
  "text2img_generation (canned\<lparr>call_worker := \<lambda>req accept. Inl ''queue is full''\<rparr>)
       ''a cat'' None None =
     ([Call_worker ''a cat'' None], Inl ''queue is full'') \<and>
   raised (canned\<lparr>call_worker := \<lambda>req accept. Inl ''queue is full''\<rparr>)
       (Call_worker ''a cat'' None) = Some ''queue is full'' \<and>
   snd (describe_image (canned\<lparr>HWC3 := \<lambda>arr. Inl ''two channels''\<rparr>)
          \<lparr>filename = Some ''cat.png'', file_object = 7\<rparr> ''Photo'') = Inl ''two channels'' \<and>
   raised (canned\<lparr>HWC3 := \<lambda>arr. Inl ''two channels''\<rparr>)
     (last (fst (describe_image (canned\<lparr>HWC3 := \<lambda>arr. Inl ''two channels''\<rparr>)
                   \<lparr>filename = Some ''cat.png'', file_object = 7\<rparr> ''Photo''))) =
     Some ''two channels''"
proof -
  let ?busy = "canned\<lparr>call_worker := \<lambda>req accept. Inl ''queue is full''\<rparr>"
  let ?grey = "canned\<lparr>HWC3 := \<lambda>arr. Inl ''two channels''\<rparr>"
  let ?u = "\<lparr>filename = Some ''cat.png'', file_object = 7::nat\<rparr>"
  have run: "text2img_generation ?busy ''a cat'' None None =
      ([Call_worker ''a cat'' None], Inl ''queue is full'')"
    by (simp add: generation_run)
  have out: "snd (describe_image ?grey ?u ''Photo'') = Inl ''two channels''"
    by (simp add: describe_image_def and_then_def invoke_def returns_def Let_def canned_def)
  from errors_come_from_delegated_calls [of ?busy "''a cat''" None None]
  have "delegated ?busy (text2img_generation ?busy ''a cat'' None None)"
    by blast
  with run have a: "raised ?busy (Call_worker ''a cat'' None) = Some ''queue is full''"
    by (simp add: delegated_def)
  from errors_come_from_delegated_calls [of ?grey _ _ _ _ _ ?u "''Photo''"]
  have "delegated ?grey (describe_image ?grey ?u ''Photo'')"
    by blast
  with out have b: "raised ?grey (last (fst (describe_image ?grey ?u ''Photo''))) =
      Some ''two channels''"
    by (simp add: delegated_def)
  from run a out b show ?thesis by simp
qed

text \<open>
  C10. What the handlers pass to the imported callables depends on the parsed inputs only,
  not on what the callables answer: with the same inputs, two runs against collaborators
  that read the same upload contents (and name the same \<open>DescribeImageType.photo\<close>) place
  the same calls with the same arguments, however the worker, the interrogators and the
  mask generator behave.
\<close>

theorem marshaling_deterministic:
  assumes "read_input_image e1 image' = read_input_image e2 image'"
    and "HWC3 e1 = HWC3 e2"
    and "image_read e1 image' = image_read e2 image'"
    and "photo e1 = photo e2"
  shows
    "fst (text2img_generation e1 req accept accept_query) =
       fst (text2img_generation e2 req accept accept_query) \<and>
     fst (img_upscale_or_vary e1 input_image req accept accept_query) =
       fst (img_upscale_or_vary e2 input_image req accept accept_query) \<and>
     fst (img_inpaint_or_outpaint e1 input_image req accept accept_query) =
       fst (img_inpaint_or_outpaint e2 input_image req accept accept_query) \<and>
     fst (img_prompt e1 cn_img1 req accept accept_query) =
       fst (img_prompt e2 cn_img1 req accept accept_query) \<and>
     fst (describe_image e1 image' image_type) = fst (describe_image e2 image' image_type) \<and>
     fst (generate_mask_route e1 image' mask_model cloth_category sam_prompt_text sam_model
            sam_quant box_threshold text_threshold) =
       fst (generate_mask_route e2 image' mask_model cloth_category sam_prompt_text sam_model
              sam_quant box_threshold text_threshold) \<and>
     fst (stop e1) = fst (stop e2)"
proof -
  have describe: "fst (describe_image e1 image' image_type) =
      fst (describe_image e2 image' image_type)"
  proof (cases "read_input_image e2 image'")
    case (Inl e)
    with assms(1) show ?thesis
      by (simp add: describe_image_def and_then_def invoke_def Let_def)
  next
    case read: (Inr arr)
    show ?thesis
    proof (cases "HWC3 e2 arr")
      case (Inl e)
      with read assms(1,2) show ?thesis
        by (simp add: describe_image_def and_then_def invoke_def Let_def)
    next
      case (Inr img)
      with read assms(1,2) have "read_input_image e1 image' = Inr arr" "HWC3 e1 arr = Inr img"
        by simp_all
      from describe_image_run [OF this] describe_image_run [OF read Inr] assms(4)
      show ?thesis by simp
    qed
  qed
  have mask: "fst (generate_mask_route e1 image' mask_model cloth_category sam_prompt_text
            sam_model sam_quant box_threshold text_threshold) =
       fst (generate_mask_route e2 image' mask_model cloth_category sam_prompt_text sam_model
              sam_quant box_threshold text_threshold)"
    using assms(3)
    by (cases "image_read e2 image'")
      (simp_all add: generate_mask_route_def and_then_def invoke_def returns_def Let_def
         split: sum.split)
  from describe mask show ?thesis
    by (simp add: generation_run stop_run)
qed

theorem marshaling_deterministic_witness:
  "read_input_image canned \<lparr>filename = Some ''cat.png'', file_object = 7\<rparr> =
     read_input_image
       (canned\<lparr>call_worker := \<lambda>req accept. Inl ''queue is full'',
               default_interrogator_photo := \<lambda>img. Inr ''a cat'',
               generate_mask_from_image := \<lambda>d m x. Inl ''no model''\<rparr>)
       \<lparr>filename = Some ''cat.png'', file_object = 7\<rparr> \<and>
   snd (text2img_generation canned ''a cat'' None (Some ''image/png'')) \<noteq>
     snd (text2img_generation
       (canned\<lparr>call_worker := \<lambda>req accept. Inl ''queue is full'',
               default_interrogator_photo := \<lambda>img. Inr ''a cat'',
               generate_mask_from_image := \<lambda>d m x. Inl ''no model''\<rparr>)
       ''a cat'' None (Some ''image/png'')) \<and>
   fst (text2img_generation canned ''a cat'' None (Some ''image/png'')) =
     fst (text2img_generation
       (canned\<lparr>call_worker := \<lambda>req accept. Inl ''queue is full'',
               default_interrogator_photo := \<lambda>img. Inr ''a cat'',
               generate_mask_from_image := \<lambda>d m x. Inl ''no model''\<rparr>)
       ''a cat'' None (Some ''image/png'')) \<and>
   fst (describe_image canned \<lparr>filename = Some ''cat.png'', file_object = 7\<rparr> ''Photo'') =
     fst (describe_image
       (canned\<lparr>call_worker := \<lambda>req accept. Inl ''queue is full'',
               default_interrogator_photo := \<lambda>img. Inr ''a cat'',
               generate_mask_from_image := \<lambda>d m x. Inl ''no model''\<rparr>)
       \<lparr>filename = Some ''cat.png'', file_object = 7\<rparr> ''Photo'') \<and>
   fst (generate_mask_route canned \<lparr>filename = Some ''cat.png'', file_object = 7\<rparr>
          ''sam'' ''upper'' ''cat'' ''vit_b'' ''None'' (3 / 10) (1 / 4)) =
     fst (generate_mask_route
       (canned\<lparr>call_worker := \<lambda>req accept. Inl ''queue is full'',
               default_interrogator_photo := \<lambda>img. Inr ''a cat'',
               generate_mask_from_image := \<lambda>d m x. Inl ''no model''\<rparr>)
       \<lparr>filename = Some ''cat.png'', file_object = 7\<rparr>
       ''sam'' ''upper'' ''cat'' ''vit_b'' ''None'' (3 / 10) (1 / 4))"
proof -
  let ?other = "canned\<lparr>call_worker := \<lambda>req accept. Inl ''queue is full'',
               default_interrogator_photo := \<lambda>img. Inr ''a cat'',
               generate_mask_from_image := \<lambda>d m x. Inl ''no model''\<rparr>"
  let ?u = "\<lparr>filename = Some ''cat.png'', file_object = 7::nat\<rparr>"
  have h1: "read_input_image canned ?u = read_input_image ?other ?u"
    and h2: "HWC3 canned = HWC3 ?other"
    and h3: "image_read canned ?u = image_read ?other ?u"
    and h4: "photo canned = photo ?other"
    by simp_all
  have differ: "snd (text2img_generation canned ''a cat'' None (Some ''image/png'')) \<noteq>
      snd (text2img_generation ?other ''a cat'' None (Some ''image/png''))"
    by (simp add: generation_run canned_def)
  from marshaling_deterministic [OF h1 h2 h3 h4, of "''a cat''" None "Some ''image/png''"
      _ _ "''Photo''" "''sam''" "''upper''" "''cat''" "''vit_b''" "''None''" "3 / 10" "1 / 4"]
    h1 differ
  show ?thesis by blast
qed

end
